theory Spec2Isabelle
  imports Main
begin

section \<open>JavaScript values the client code relies on\<close>

text \<open>
  Template literals render numbers in decimal. Identifiers, indices, page numbers and HTTP
  status codes are integers in every response of the content backend, so numbers are
  modelled as \<open>int\<close> (or \<open>nat\<close> where the source can only produce a non-negative
  value), and their rendering is the decimal one.
\<close>

definition digit :: "nat \<Rightarrow> char" where
  "digit d = ''0123456789'' ! d"

function string_of_nat :: "nat \<Rightarrow> string" where
  "string_of_nat n =
     (if n < 10 then [digit n] else string_of_nat (n div 10) @ [digit (n mod 10)])"
  by pat_completeness auto
termination
  by (relation "measure id") auto

declare string_of_nat.simps [simp del]

definition string_of_int :: "int \<Rightarrow> string" where
  "string_of_int i = (if i < 0 then CHR ''-'' # string_of_nat (nat (- i)) else string_of_nat (nat i))"

text \<open>\<open>String.prototype.startsWith\<close>.\<close>

definition startsWith :: "string \<Rightarrow> string \<Rightarrow> bool" where
  "startsWith s p = (take (length p) s = p)"

text \<open>
  \<open>Array.prototype.map\<close> with the two-argument callback \<open>(element, index)\<close>: the
  traversal is written out as the loop it is, carrying the running index.
\<close>

fun map_index :: "('a \<Rightarrow> nat \<Rightarrow> 'b) \<Rightarrow> nat \<Rightarrow> 'a list \<Rightarrow> 'b list" where
  "map_index f i [] = []"
| "map_index f i (x # xs) = f x i # map_index f (Suc i) xs"


section \<open>\<open>lib/utils.ts\<close>\<close>

text \<open>
  \<^verbatim>\<open>const STRAPI_URL = process.env.EXPO_PUBLIC_STRAPI_URL || "http://localhost:1337";\<close>
  The environment variable is a parameter: \<open>None\<close> when it is not set. The operator
  \<open>||\<close> also takes the default for the empty string.
\<close>

definition STRAPI_URL :: "string option \<Rightarrow> string" where
  "STRAPI_URL env =
     (case env of
        None \<Rightarrow> ''http://localhost:1337''
      | Some v \<Rightarrow> if v = [] then ''http://localhost:1337'' else v)"

definition getStrapiURL :: "string option \<Rightarrow> string" where
  "getStrapiURL env = STRAPI_URL env"

text \<open>
  \<^verbatim>\<open>
  export function getStrapiMedia(url: string | null): string | null {
    if (!url) return null;
    if (url.startsWith("http")) return url;
    return `${getStrapiURL()}${url}`;
  }
  \<close>
  \<open>!url\<close> holds for \<open>null\<close> and for the empty string.
\<close>

definition getStrapiMedia :: "string option \<Rightarrow> string option \<Rightarrow> string option" where
  "getStrapiMedia env url =
     (case url of
        None \<Rightarrow> None
      | Some u \<Rightarrow>
          if u = [] then None
          else if startsWith u ''http'' then Some u
          else Some (getStrapiURL env @ u))"


section \<open>\<open>components/blocks/block-renderer.tsx\<close>\<close>

text \<open>
  A block as it arrives from the backend: the discriminant \<open>__component\<close>, the numeric
  \<open>id\<close>, and the remaining display fields, which the renderer hands to the block's
  component without reading them (\<open>{...block}\<close>). The response is cast to
  \<open>Block[]\<close> without validation, so the tag is any string at run time.
\<close>

record 'p block =
  component :: string
  block_id :: int
  props :: 'p

text \<open>
  Rendered elements: one constructor per block component that the renderer can mount, and
  the two host elements \<open>View\<close> and \<open>Text\<close> (with their \<open>className\<close>) that the
  placeholder of the first version of the renderer is made of.
\<close>

datatype 'p element =
    Hero "'p block"
  | SectionHeading "'p block"
  | CardGrid "'p block"
  | ContentWithImage "'p block"
  | MarkdownText "'p block"
  | Faqs "'p block"
  | View string "'p element list"
  | Text string "string list"

text \<open>
  The wrapper \<^verbatim>\<open><View key={...}>{renderBlock(block)}</View>\<close> that the renderer emits
  for each block; \<open>child = None\<close> is the wrapper around \<open>null\<close>.
\<close>

record 'p keyed_view =
  key :: string
  child :: "'p element option"

definition block_key :: "'p block \<Rightarrow> nat \<Rightarrow> string" where
  "block_key b index =
     component b @ ''-'' @ string_of_int (block_id b) @ ''-'' @ string_of_nat index"

text \<open>
  Step 6.7, the renderer with all six block components:
  \<^verbatim>\<open>
  const renderBlock = (block: Block) => {
    switch (block.__component) {
      case "blocks.hero": return <Hero {...block} />;
      case "blocks.section-heading": return <SectionHeading {...block} />;
      case "blocks.card-grid": return <CardGrid {...block} />;
      case "blocks.content-with-image": return <ContentWithImage {...block} />;
      case "blocks.markdown": return <MarkdownText {...block} />;
      case "blocks.faqs": return <Faqs {...block} />;
      default: return null;
    }
  };
  return (<View>{blocks.map((block, index) => (
      <View key={`${block.__component}-${block.id}-${index}`}>{renderBlock(block)}</View>))}</View>);
  \<close>
  \<open>BlockRenderer\<close> returns the children of the outer \<open>View\<close>.
\<close>

definition renderBlock :: "'p block \<Rightarrow> 'p element option" where
  "renderBlock b =
     (if component b = ''blocks.hero'' then Some (Hero b)
      else if component b = ''blocks.section-heading'' then Some (SectionHeading b)
      else if component b = ''blocks.card-grid'' then Some (CardGrid b)
      else if component b = ''blocks.content-with-image'' then Some (ContentWithImage b)
      else if component b = ''blocks.markdown'' then Some (MarkdownText b)
      else if component b = ''blocks.faqs'' then Some (Faqs b)
      else None)"

definition BlockRenderer :: "'p block list \<Rightarrow> 'p keyed_view list" where
  "BlockRenderer blocks =
     map_index (\<lambda>b index. \<lparr>key = block_key b index, child = renderBlock b\<rparr>) 0 blocks"

text \<open>
  Step 6.4, the first version of the same file, written before the other five components
  exist; its default arm shows a placeholder:
  \<^verbatim>\<open>
      case "blocks.hero": return <Hero {...block} />;
      default:
        // Show a placeholder for unimplemented blocks
        return (
          <View className="p-4 m-4 bg-yellow-100 border border-yellow-400 rounded">
            <Text className="text-yellow-800">Block not implemented: {block.__component}</Text>
          </View>);
  \<close>
\<close>

definition renderBlock_hero_only :: "'p block \<Rightarrow> 'p element option" where
  "renderBlock_hero_only b =
     (if component b = ''blocks.hero'' then Some (Hero b)
      else Some (View ''p-4 m-4 bg-yellow-100 border border-yellow-400 rounded''
                  [Text ''text-yellow-800'' [''Block not implemented: '', component b]]))"

definition BlockRenderer_hero_only :: "'p block list \<Rightarrow> 'p keyed_view list" where
  "BlockRenderer_hero_only blocks =
     map_index (\<lambda>b index. \<lparr>key = block_key b index, child = renderBlock_hero_only b\<rparr>) 0 blocks"

text \<open>The tags the final renderer has a component for.\<close>

definition registered_kinds :: "string list" where
  "registered_kinds =
     [''blocks.hero'', ''blocks.section-heading'', ''blocks.card-grid'',
      ''blocks.content-with-image'', ''blocks.markdown'', ''blocks.faqs'']"

text \<open>The strings an element shows, in document order.\<close>

fun shown_text :: "'p element \<Rightarrow> string list" where
  "shown_text (View c es) = concat (map shown_text es)"
| "shown_text (Text c ss) = ss"
| "shown_text _ = []"


section \<open>\<open>types/index.ts\<close>: response envelopes\<close>

record pagination =
  page :: int
  pageSize :: int
  pageCount :: int
  total :: int

text \<open>\<open>StrapiMeta\<close>: the field \<open>pagination\<close> is optional.\<close>

record StrapiMeta =
  pagination :: "pagination option"

record 'a StrapiCollectionResponse =
  data :: "'a list"
  meta :: StrapiMeta


section \<open>\<open>lib/strapi-api.ts\<close>: the fetch client\<close>

text \<open>
  Errors are values. \<open>Error\<close> is what \<open>fetchAPI\<close> throws itself; \<open>TypeError\<close> is the
  rejection of \<open>fetch\<close> on a transport failure; \<open>SyntaxError\<close> is the rejection of
  \<open>response.json()\<close> on a body that is not JSON. Each carries its message.
\<close>

datatype js_error = Error string | TypeError string | SyntaxError string

text \<open>
  The filters the loaders build:
  \<^verbatim>\<open>{ slug: { $eq: slug } }\<close> and \<^verbatim>\<open>{ contentTags: { title: { $containsi: tag } } }\<close>.
\<close>

datatype filters = SlugEq string | ContentTagsTitleContainsi string

record pagination_options =
  opt_page :: "int option"
  opt_pageSize :: "int option"

text \<open>
  \<open>QueryOptions\<close>; every field is optional. The loaders of the article collection
  set neither \<open>populate\<close> nor \<open>fields\<close> (here \<open>select_fields\<close>), kept as plain field lists.
\<close>

record QueryOptions =
  populate :: "string list option"
  filters :: "filters option"
  sort :: "string list option"
  pagination_opt :: "pagination_options option"
  select_fields :: "string list option"

text \<open>
  The request that \<open>fetchAPI\<close> sends: \<^verbatim>\<open>new URL(`/api/${endpoint}`, BASE_URL)\<close> with
  \<^verbatim>\<open>url.search = qs.stringify(options, { encode: false })\<close> when options are given.
  The URL is kept in its parts (base, path, options) instead of as the serialised string.
\<close>

record request =
  base :: string
  path :: string
  search :: "QueryOptions option"

text \<open>
  A response of the Fetch API, with its body read: \<open>body_text\<close> is what \<open>response.text()\<close>
  resolves to, \<open>body_json\<close> what \<open>response.json()\<close> resolves to (\<open>None\<close> when the body is
  not JSON). \<open>response.ok\<close> is, by the Fetch standard, a status in the range 200 to 299.
  The body is cast to the caller's type \<open>T\<close> without validation, so the parsed body
  already has the type \<open>'j\<close> the caller expects.
\<close>

record 'j http_response =
  status :: nat
  statusText :: string
  body_text :: string
  body_json :: "'j option"

definition ok :: "'j http_response \<Rightarrow> bool" where
  "ok response = (200 \<le> status response \<and> status response \<le> 299)"

text \<open>
  The outside world: the requests sent so far and the lines written by
  \<open>console.error\<close>. The network answers a request with a transport failure or a
  response; it may answer the same request differently later, so it also sees how many
  requests came before.
\<close>

record world =
  requests :: "request list"
  console :: "string list"

type_synonym 'j network = "nat \<Rightarrow> request \<Rightarrow> js_error + 'j http_response"

type_synonym 'r io = "world \<Rightarrow> (js_error + 'r) \<times> world"

text \<open>
  \<^verbatim>\<open>
  async function fetchAPI<T>(endpoint: string, options?: QueryOptions): Promise<T> {
    const url = new URL(`/api/${endpoint}`, BASE_URL);
    if (options) { url.search = qs.stringify(options, { encode: false }); }
    const response = await fetch(url.href, { headers: { "Content-Type": "application/json" } });
    if (!response.ok) {
      const text = await response.text();
      console.error("API error response:", text);
      throw new Error(`API error: ${response.status} ${response.statusText}`);
    }
    return response.json();
  }
  \<close>
\<close>

definition api_error_message :: "'j http_response \<Rightarrow> string" where
  "api_error_message response =
     ''API error: '' @ string_of_nat (status response) @ '' '' @ statusText response"

definition api_url :: "string option \<Rightarrow> string \<Rightarrow> QueryOptions option \<Rightarrow> request" where
  "api_url env endpoint options =
     \<lparr>base = getStrapiURL env, path = ''/api/'' @ endpoint, search = options\<rparr>"

definition fetchAPI ::
  "'j network \<Rightarrow> string option \<Rightarrow> string \<Rightarrow> QueryOptions option \<Rightarrow> 'j io" where
  "fetchAPI net env endpoint options w =
     (let url = api_url env endpoint options;
          w1 = w\<lparr>requests := requests w @ [url]\<rparr>
      in case net (length (requests w)) url of
           Inl e \<Rightarrow> (Inl e, w1)
         | Inr response \<Rightarrow>
             if \<not> ok response then
               (Inl (Error (api_error_message response)),
                w1\<lparr>console := console w1 @ [''API error response: '' @ body_text response]\<rparr>)
             else
               (case body_json response of
                  None \<Rightarrow> (Inl (SyntaxError ''Unexpected token''), w1)
                | Some v \<Rightarrow> (Inr v, w1)))"

text \<open>\<^verbatim>\<open>collection(pluralApiId).find(options)\<close> is \<open>fetchAPI(pluralApiId, options)\<close>.\<close>

definition collection_find ::
  "'j network \<Rightarrow> string option \<Rightarrow> string \<Rightarrow> QueryOptions \<Rightarrow> 'j io" where
  "collection_find net env pluralApiId options = fetchAPI net env pluralApiId (Some options)"


section \<open>\<open>data/loaders.ts\<close>\<close>

definition PAGE_SIZE :: int where
  "PAGE_SIZE = 10"

record GetArticlesParams =
  param_page :: "int option"
  param_pageSize :: "int option"
  param_tag :: "string option"

definition no_options :: QueryOptions where
  "no_options = \<lparr>populate = None, filters = None, sort = None, pagination_opt = None, select_fields = None\<rparr>"

text \<open>\<^verbatim>\<open>const articles = strapiApi.collection("articles");\<close>\<close>

definition articles_find ::
  "'a StrapiCollectionResponse network \<Rightarrow> string option \<Rightarrow> QueryOptions \<Rightarrow>
   'a StrapiCollectionResponse io" where
  "articles_find net env options = collection_find net env ''articles'' options"

text \<open>
  \<^verbatim>\<open>
  export async function getArticles(params?: GetArticlesParams) {
    const { page = 1, pageSize = PAGE_SIZE, tag } = params || {};
    const filters = tag ? { contentTags: { title: { $containsi: tag } } } : undefined;
    const response = await articles.find({
      sort: ["createdAt:desc"], pagination: { page, pageSize }, filters });
    return response as StrapiCollectionResponse<Article>;
  }
  \<close>
\<close>

definition getArticles ::
  "'a StrapiCollectionResponse network \<Rightarrow> string option \<Rightarrow> GetArticlesParams option \<Rightarrow>
   'a StrapiCollectionResponse io" where
  "getArticles net env params =
     (let p = (case params of
                 None \<Rightarrow> \<lparr>param_page = None, param_pageSize = None, param_tag = None\<rparr>
               | Some q \<Rightarrow> q);
          the_page = (case param_page p of None \<Rightarrow> 1 | Some n \<Rightarrow> n);
          the_pageSize = (case param_pageSize p of None \<Rightarrow> PAGE_SIZE | Some n \<Rightarrow> n);
          the_filters = (case param_tag p of
                           None \<Rightarrow> None
                         | Some t \<Rightarrow> if t = [] then None else Some (ContentTagsTitleContainsi t))
      in articles_find net env
           (no_options\<lparr>sort := Some [''createdAt:desc''],
                        pagination_opt := Some \<lparr>opt_page = Some the_page, opt_pageSize = Some the_pageSize\<rparr>,
                        filters := the_filters\<rparr>))"

text \<open>
  \<^verbatim>\<open>
  export async function getArticleBySlug(slug: string) {
    const response = await articles.find({ filters: { slug: { $eq: slug } } });
    return response as StrapiCollectionResponse<Article>;
  }
  \<close>
\<close>

definition getArticleBySlug ::
  "'a StrapiCollectionResponse network \<Rightarrow> string option \<Rightarrow> string \<Rightarrow>
   'a StrapiCollectionResponse io" where
  "getArticleBySlug net env slug =
     articles_find net env (no_options\<lparr>filters := Some (SlugEq slug)\<rparr>)"


section \<open>\<open>hooks/useArticles.ts\<close>\<close>

text \<open>
  A query key is an array of strings here; \<open>None\<close> is the \<open>undefined\<close> that an
  omitted \<open>tag\<close> leaves in the array.
\<close>

type_synonym queryKey = "string option list"

text \<open>The options object handed to \<open>useQuery\<close>.\<close>

record 'r query_options =
  queryKey :: queryKey
  queryFn :: "'r io"
  enabled :: bool

text \<open>
  The options object handed to \<open>useInfiniteQuery\<close>. The query function receives the
  page parameter, which its signature allows to be absent.
\<close>

record 'r infinite_query_options =
  inf_queryKey :: queryKey
  inf_queryFn :: "int option \<Rightarrow> 'r io"
  initialPageParam :: int
  inf_getNextPageParam :: "'r \<Rightarrow> int option"

text \<open>
  \<^verbatim>\<open>
  getNextPageParam: (lastPage) => {
    const { page, pageCount } = lastPage.meta.pagination || { page: 1, pageCount: 1 };
    return page < pageCount ? page + 1 : undefined;
  }
  \<close>
\<close>

definition getNextPageParam :: "'a StrapiCollectionResponse \<Rightarrow> int option" where
  "getNextPageParam lastPage =
     (let (current, count) =
            (case pagination (meta lastPage) of
               None \<Rightarrow> (1, 1)
             | Some pg \<Rightarrow> (page pg, pageCount pg))
      in if current < count then Some (current + 1) else None)"

text \<open>
  \<^verbatim>\<open>
  export function useInfiniteArticles(tag?: string) {
    return useInfiniteQuery({
      queryKey: ["articles", "infinite", tag],
      queryFn: ({ pageParam = 1 }) => getArticles({ page: pageParam, tag }),
      initialPageParam: 1,
      getNextPageParam: ... });
  }
  \<close>
\<close>

definition useInfiniteArticles ::
  "'a StrapiCollectionResponse network \<Rightarrow> string option \<Rightarrow> string option \<Rightarrow>
   'a StrapiCollectionResponse infinite_query_options" where
  "useInfiniteArticles net env tag =
     \<lparr>inf_queryKey = [Some ''articles'', Some ''infinite'', tag],
      inf_queryFn = (\<lambda>pageParam.
         getArticles net env
           (Some \<lparr>param_page = Some (case pageParam of None \<Rightarrow> 1 | Some p \<Rightarrow> p),
                  param_pageSize = None, param_tag = tag\<rparr>)),
      initialPageParam = 1,
      inf_getNextPageParam = getNextPageParam\<rparr>"

text \<open>
  \<^verbatim>\<open>
  export function useArticleBySlug(slug: string) {
    return useQuery({
      queryKey: ["article", slug],
      queryFn: () => getArticleBySlug(slug),
      enabled: !!slug });
  }
  \<close>
  \<open>!!slug\<close> is false exactly for the empty string.
\<close>

definition useArticleBySlug ::
  "'a StrapiCollectionResponse network \<Rightarrow> string option \<Rightarrow> string \<Rightarrow>
   'a StrapiCollectionResponse query_options" where
  "useArticleBySlug net env slug =
     \<lparr>queryKey = [Some ''article'', Some slug],
      queryFn = getArticleBySlug net env slug,
      enabled = (slug \<noteq> [])\<rparr>"


section \<open>\<open>app/_layout.tsx\<close>: the query client\<close>

text \<open>
  \<^verbatim>\<open>
  const queryClient = new QueryClient({
    defaultOptions: { queries: { staleTime: 1000 * 60 * 5, retry: 3 } } });
  \<close>
\<close>

definition staleTime :: nat where
  "staleTime = 1000 * 60 * 5"

definition retry :: nat where
  "retry = 3"


section \<open>The query library's contract, as far as the hooks and screens rely on it\<close>

text \<open>
  The hooks only build options objects; running them is the work of the query library
  (\<open>@tanstack/react-query\<close>), which is not part of this repository. The definitions of
  this section write down the behaviour of that library which the hooks and screens are
  written against, so that what the options mean can be stated.

  A query function that fails is called again until it succeeds or \<open>retry\<close> further
  attempts have failed; the error that is reported is the one of the last attempt.
\<close>

fun retryer :: "nat \<Rightarrow> 'r io \<Rightarrow> 'r io" where
  "retryer 0 f w = f w"
| "retryer (Suc n) f w =
     (case f w of
        (Inl e, w') \<Rightarrow> retryer n f w'
      | (Inr v, w') \<Rightarrow> (Inr v, w'))"

text \<open>What a hook built on \<open>useQuery\<close> hands to the screen: \<open>data\<close> or \<open>error\<close>.\<close>

datatype 'r query_result = Idle | Success 'r | Failure js_error

text \<open>
  Mounting a query: a query with \<open>enabled: false\<close> is not fetched; an enabled one runs
  its query function under the client's retry count.
\<close>

definition useQuery :: "nat \<Rightarrow> 'r query_options \<Rightarrow> world \<Rightarrow> 'r query_result \<times> world" where
  "useQuery retries options w =
     (if enabled options then
        (case retryer retries (queryFn options) w of
           (Inl e, w') \<Rightarrow> (Failure e, w')
         | (Inr v, w') \<Rightarrow> (Success v, w'))
      else (Idle, w))"

text \<open>
  \<open>hasNextPage\<close> of an infinite query: there is a last page and \<open>getNextPageParam\<close>
  gives a parameter for it (neither \<open>undefined\<close> nor \<open>null\<close>).
\<close>

definition hasNextPage :: "('r \<Rightarrow> int option) \<Rightarrow> 'r list \<Rightarrow> bool" where
  "hasNextPage next_param ps =
     (case ps of [] \<Rightarrow> False | _ \<Rightarrow> next_param (last ps) \<noteq> None)"

text \<open>
  The library keeps the pages of an infinite query in its cache under the query key, and
  with the client's \<open>staleTime\<close> of five minutes it serves them from there without
  fetching them again while they are that recent. The parameter of the next fetch of a
  sequence is \<open>initialPageParam\<close> while the sequence has no page, and afterwards what
  \<open>getNextPageParam\<close> gives for its last page.
\<close>

type_synonym 'r query_cache = "queryKey \<rightharpoonup> 'r list"

definition next_page_param :: "'r infinite_query_options \<Rightarrow> 'r query_cache \<Rightarrow> int option" where
  "next_page_param options cache =
     (case cache (inf_queryKey options) of
        None \<Rightarrow> Some (initialPageParam options)
      | Some ps \<Rightarrow>
          if ps = [] then Some (initialPageParam options)
          else inf_getNextPageParam options (last ps))"

text \<open>
  Fetching the next page of the sequence of \<open>options\<close>: the query function is called
  with the parameter, under the client's retry count as every query function is, and a
  page that arrives is appended under the key; a fetch that fails for good leaves the
  pages as they are.
\<close>

definition fetch_page ::
  "nat \<Rightarrow> 'r infinite_query_options \<Rightarrow> 'r query_cache \<Rightarrow> world \<Rightarrow> 'r query_cache \<times> world" where
  "fetch_page retries options cache w =
     (case next_page_param options cache of
        None \<Rightarrow> (cache, w)
      | Some p \<Rightarrow>
          (case retryer retries (inf_queryFn options (Some p)) w of
             (Inl e, w') \<Rightarrow> (cache, w')
           | (Inr new_page, w') \<Rightarrow>
               (cache(inf_queryKey options \<mapsto>
                  (case cache (inf_queryKey options) of None \<Rightarrow> [] | Some ps \<Rightarrow> ps) @ [new_page]),
                w')))"

text \<open>
  The observer of one infinite query, between fetches: the pages it has, how many
  next-page fetches are in flight (\<open>isFetchingNextPage\<close> is that there is one), and the
  page parameters it has asked for. \<open>fetchNextPage\<close> itself does not look at the flag:
  guarding is left to the caller.
\<close>

record 'r infinite_query =
  pages :: "'r list"
  in_flight :: nat
  asked :: "int list"





section \<open>\<open>app/(tabs)/blog.tsx\<close> and \<open>app/article/[slug].tsx\<close>: the screens\<close>









text \<open>
  \<^verbatim>\<open>
  const { slug } = useLocalSearchParams<{ slug: string }>();
  const { data, isLoading, error } = useArticleBySlug(slug || "");
  \<close>
  The route parameter may be absent; \<open>slug || ""\<close> turns an absent one into the empty
  string.
\<close>

definition ArticleDetailScreen ::
  "'a StrapiCollectionResponse network \<Rightarrow> string option \<Rightarrow> string option \<Rightarrow>
   'a StrapiCollectionResponse query_options" where
  "ArticleDetailScreen net env slug =
     useArticleBySlug net env (case slug of None \<Rightarrow> [] | Some s \<Rightarrow> s)"


text \<open>
  A user of the list who selects one filter value after the other and loads one page
  each time: the sequence of \<open>useInfiniteArticles(tag)\<close> calls with a changing \<open>tag\<close>,
  against one cache and under the client's retry count.
\<close>

fun browse ::
  "'a StrapiCollectionResponse network \<Rightarrow> string option \<Rightarrow> string option list \<Rightarrow>
   'a StrapiCollectionResponse query_cache \<times> world \<Rightarrow>
   'a StrapiCollectionResponse query_cache \<times> world" where
  "browse net env [] s = s"
| "browse net env (tag # tags) s =
     browse net env tags (fetch_page retry (useInfiniteArticles net env tag) (fst s) (snd s))"


section \<open>Example networks\<close>

text \<open>
  Concrete networks at which the theorems below are instantiated. The first answers
  every request with status 200 and an empty page that carries the page number asked for
  and the given page count; the second answers every request with the given error status;
  the third fails at the transport level.
\<close>

definition requested_page :: "request \<Rightarrow> int" where
  "requested_page r =
     (case search r of
        None \<Rightarrow> 1
      | Some q \<Rightarrow>
          (case pagination_opt q of
             None \<Rightarrow> 1
           | Some p \<Rightarrow> (case opt_page p of None \<Rightarrow> 1 | Some n \<Rightarrow> n)))"

definition requested_filter :: "request \<Rightarrow> filters option" where
  "requested_filter r = (case search r of None \<Rightarrow> None | Some q \<Rightarrow> filters q)"

definition paged_backend :: "int \<Rightarrow> nat StrapiCollectionResponse network" where
  "paged_backend count i r =
     Inr \<lparr>status = 200, statusText = ''OK'', body_text = ''{}'',
          body_json = Some \<lparr>data = [],
            meta = \<lparr>pagination = Some \<lparr>page = requested_page r, pageSize = 10,
                                         pageCount = count, total = 10 * count\<rparr>\<rparr>\<rparr>\<rparr>"

definition failing_backend :: "nat \<Rightarrow> string \<Rightarrow> nat StrapiCollectionResponse network" where
  "failing_backend code reason i r =
     Inr \<lparr>status = code, statusText = reason, body_text = ''{}'', body_json = None\<rparr>"

definition offline :: "nat StrapiCollectionResponse network" where
  "offline i r = Inl (TypeError ''Network request failed'')"

definition fresh_world :: world where
  "fresh_world = \<lparr>requests = [], console = []\<rparr>"


section \<open>Auxiliary facts\<close>

lemma string_of_nat_digit: "n < 10 \<Longrightarrow> string_of_nat n = [digit n]"
  by (simp add: string_of_nat.simps)

lemma map_index_length: "length (map_index f i xs) = length xs"
  by (induction xs arbitrary: i) auto

lemma map_index_nth: "n < length xs \<Longrightarrow> map_index f i xs ! n = f (xs ! n) (i + n)"
proof (induction xs arbitrary: i n)
  case Nil
  then show ?case by simp
next
  case (Cons x xs)
  then show ?case by (cases n) auto
qed

lemma map_index_project:
  "(\<And>x i. g (f x i) = h x) \<Longrightarrow> map g (map_index f i xs) = map h xs"
  by (induction xs arbitrary: i) auto

lemma BlockRenderer_children: "map child (BlockRenderer blocks) = map renderBlock blocks"
  unfolding BlockRenderer_def by (rule map_index_project) simp

lemma renderBlock_unregistered:
  "component b \<notin> set registered_kinds \<Longrightarrow> renderBlock b = None"
  by (simp add: renderBlock_def registered_kinds_def)

lemma renderBlock_registered:
  "component b \<in> set registered_kinds \<Longrightarrow> renderBlock b \<noteq> None"
  by (auto simp add: renderBlock_def registered_kinds_def)


section \<open>The content-block renderer\<close>

text \<open>
  Claim C1, as stated: a block whose tag is none of the six registered kinds is rendered as
  a visible placeholder that contains the raw tag. The renderer with the six kinds
  (step 6.7) does not do that: its default arm returns \<open>null\<close>, so the block with the tag
  \<open>blocks.unknown-type\<close> is rendered as its keyed wrapper with nothing inside, and no
  element shows the tag.
\<close>

theorem renderBlock_unknown_counterexample:
  "''blocks.unknown-type'' \<notin> set registered_kinds \<and>
   renderBlock \<lparr>component = ''blocks.unknown-type'', block_id = 1, props = ()\<rparr> = None \<and>
   BlockRenderer [\<lparr>component = ''blocks.unknown-type'', block_id = 1, props = ()\<rparr>] =
     [\<lparr>key = ''blocks.unknown-type-1-0'', child = None\<rparr>]"
  by (simp add: registered_kinds_def renderBlock_def BlockRenderer_def block_key_def
      string_of_int_def string_of_nat_digit digit_def)

text \<open>
  Claim C1, amended: for every block whose tag is none of the six registered kinds, the
  renderer with the six kinds renders nothing for it (the block's keyed wrapper is emitted
  with no content, no placeholder and no tag string), never fails, and renders the blocks
  before and after it as it would without it. Only the first version of the renderer
  (step 6.4, which knows the hero block alone) shows a placeholder with the raw tag, and it
  does so for every tag other than \<open>blocks.hero\<close>, the five other registered kinds
  included.
\<close>

theorem unregistered_block_renders_empty_wrapper:
  "(component b \<notin> set registered_kinds \<longrightarrow>
      renderBlock b = None \<and>
      length (BlockRenderer (before @ b # after)) = length before + 1 + length after \<and>
      BlockRenderer (before @ b # after) ! length before =
        \<lparr>key = block_key b (length before), child = None\<rparr> \<and>
      map child (BlockRenderer (before @ b # after)) =
        map renderBlock before @ None # map renderBlock after) \<and>
   (component b \<noteq> ''blocks.hero'' \<longrightarrow>
      renderBlock_hero_only b =
        Some (View ''p-4 m-4 bg-yellow-100 border border-yellow-400 rounded''
               [Text ''text-yellow-800'' [''Block not implemented: '', component b]]) \<and>
      case_option [] shown_text (renderBlock_hero_only b) =
        [''Block not implemented: '', component b] \<and>
      BlockRenderer_hero_only (before @ b # after) ! length before =
        \<lparr>key = block_key b (length before),
         child = Some (View ''p-4 m-4 bg-yellow-100 border border-yellow-400 rounded''
                        [Text ''text-yellow-800'' [''Block not implemented: '', component b]])\<rparr>)"
proof -
  have position: "length before < length (before @ b # after)"
    by simp
  have final: "renderBlock b = None \<and>
      length (BlockRenderer (before @ b # after)) = length before + 1 + length after \<and>
      BlockRenderer (before @ b # after) ! length before =
        \<lparr>key = block_key b (length before), child = None\<rparr> \<and>
      map child (BlockRenderer (before @ b # after)) =
        map renderBlock before @ None # map renderBlock after"
    if unregistered: "component b \<notin> set registered_kinds"
  proof -
    have none: "renderBlock b = None"
      using unregistered by (rule renderBlock_unregistered)
    have len: "length (BlockRenderer (before @ b # after)) = length before + 1 + length after"
      by (simp add: BlockRenderer_def map_index_length)
    have "BlockRenderer (before @ b # after) ! length before =
        \<lparr>key = block_key ((before @ b # after) ! length before) (0 + length before),
         child = renderBlock ((before @ b # after) ! length before)\<rparr>"
      unfolding BlockRenderer_def using position by (rule map_index_nth)
    then have at: "BlockRenderer (before @ b # after) ! length before =
        \<lparr>key = block_key b (length before), child = None\<rparr>"
      by (simp add: none)
    have others: "map child (BlockRenderer (before @ b # after)) =
        map renderBlock before @ None # map renderBlock after"
      by (simp add: BlockRenderer_children none)
    from none len at others show ?thesis
      by simp
  qed
  have first: "renderBlock_hero_only b =
        Some (View ''p-4 m-4 bg-yellow-100 border border-yellow-400 rounded''
               [Text ''text-yellow-800'' [''Block not implemented: '', component b]]) \<and>
      case_option [] shown_text (renderBlock_hero_only b) =
        [''Block not implemented: '', component b] \<and>
      BlockRenderer_hero_only (before @ b # after) ! length before =
        \<lparr>key = block_key b (length before),
         child = Some (View ''p-4 m-4 bg-yellow-100 border border-yellow-400 rounded''
                        [Text ''text-yellow-800'' [''Block not implemented: '', component b]])\<rparr>"
    if other: "component b \<noteq> ''blocks.hero''"
  proof -
    have placeholder: "renderBlock_hero_only b =
        Some (View ''p-4 m-4 bg-yellow-100 border border-yellow-400 rounded''
               [Text ''text-yellow-800'' [''Block not implemented: '', component b]])"
      using other by (simp add: renderBlock_hero_only_def)
    have "BlockRenderer_hero_only (before @ b # after) ! length before =
        \<lparr>key = block_key ((before @ b # after) ! length before) (0 + length before),
         child = renderBlock_hero_only ((before @ b # after) ! length before)\<rparr>"
      unfolding BlockRenderer_hero_only_def using position by (rule map_index_nth)
    with placeholder show ?thesis
      by simp
  qed
  from final first show ?thesis
    by blast
qed

theorem unregistered_block_renders_empty_wrapper_witness:
  "''blocks.unknown-type'' \<notin> set registered_kinds \<and>
   map child
     (BlockRenderer
        [\<lparr>component = ''blocks.hero'', block_id = 1, props = ()\<rparr>,
         \<lparr>component = ''blocks.unknown-type'', block_id = 2, props = ()\<rparr>,
         \<lparr>component = ''blocks.faqs'', block_id = 3, props = ()\<rparr>]) =
     [Some (Hero \<lparr>component = ''blocks.hero'', block_id = 1, props = ()\<rparr>),
      None,
      Some (Faqs \<lparr>component = ''blocks.faqs'', block_id = 3, props = ()\<rparr>)] \<and>
   case_option [] shown_text
     (renderBlock_hero_only \<lparr>component = ''blocks.unknown-type'', block_id = 2, props = ()\<rparr>) =
     [''Block not implemented: '', ''blocks.unknown-type''] \<and>
   ''blocks.faqs'' \<noteq> ''blocks.hero'' \<and>
   case_option [] shown_text
     (renderBlock_hero_only \<lparr>component = ''blocks.faqs'', block_id = 3, props = ()\<rparr>) =
     [''Block not implemented: '', ''blocks.faqs'']"
proof -
  have unregistered:
    "component \<lparr>component = ''blocks.unknown-type'', block_id = 2, props = ()\<rparr>
       \<notin> set registered_kinds"
    by (simp add: registered_kinds_def)
  have not_hero:
    "component \<lparr>component = ''blocks.unknown-type'', block_id = 2, props = ()\<rparr> \<noteq> ''blocks.hero''"
    by simp
  have faqs: "component \<lparr>component = ''blocks.faqs'', block_id = 3, props = ()\<rparr> \<noteq> ''blocks.hero''"
    by simp
  show ?thesis
    using unregistered not_hero faqs
      unregistered_block_renders_empty_wrapper
        [of "\<lparr>component = ''blocks.unknown-type'', block_id = 2, props = ()\<rparr>"
            "[\<lparr>component = ''blocks.hero'', block_id = 1, props = ()\<rparr>]"
            "[\<lparr>component = ''blocks.faqs'', block_id = 3, props = ()\<rparr>]"]
      unregistered_block_renders_empty_wrapper
        [of "\<lparr>component = ''blocks.faqs'', block_id = 3, props = ()\<rparr>" "[]" "[]"]
    by (simp add: registered_kinds_def renderBlock_def)
qed

text \<open>
  Claim C4: for every sequence of blocks, the empty one included, the renderer emits
  exactly one unit per block, in the order of the input: the output is as long as the
  input, and the unit at each position is the keyed wrapper of the block at that position,
  holding what \<open>renderBlock\<close> gives for that block. The empty sequence gives no unit.
  (For a tag without a component the unit is the wrapper with nothing inside.)
\<close>

theorem BlockRenderer_order_and_count:
  "length (BlockRenderer blocks) = length blocks \<and>
   (\<forall>i < length blocks.
      BlockRenderer blocks ! i =
        \<lparr>key = block_key (blocks ! i) i, child = renderBlock (blocks ! i)\<rparr>) \<and>
   BlockRenderer ([] :: 'p block list) = []"
  by (simp add: BlockRenderer_def map_index_length map_index_nth)

theorem BlockRenderer_order_and_count_witness:
  "BlockRenderer
     [\<lparr>component = ''blocks.markdown'', block_id = 4, props = ''# Title''\<rparr>,
      \<lparr>component = ''blocks.hero'', block_id = 4, props = ''Welcome''\<rparr>] ! 1 =
     \<lparr>key = ''blocks.hero-4-1'',
      child = Some (Hero \<lparr>component = ''blocks.hero'', block_id = 4, props = ''Welcome''\<rparr>)\<rparr>"
proof -
  let ?bs = "[\<lparr>component = ''blocks.markdown'', block_id = 4, props = ''# Title''\<rparr>,
      \<lparr>component = ''blocks.hero'', block_id = 4, props = ''Welcome''\<rparr>]"
  have "1 < length ?bs"
    by simp
  with BlockRenderer_order_and_count [of ?bs]
  have "BlockRenderer ?bs ! 1 = \<lparr>key = block_key (?bs ! 1) 1, child = renderBlock (?bs ! 1)\<rparr>"
    by blast
  then show ?thesis
    by (simp add: block_key_def renderBlock_def string_of_int_def string_of_nat_digit digit_def)
qed


section \<open>Media resolution\<close>

text \<open>
  Claim C5, as stated: every URL string that is not \<open>null\<close> comes back unchanged when it
  is absolute and with the base URL in front when it is relative. The empty string is a
  string and not \<open>null\<close>, and for it the function returns \<open>null\<close>: neither the string
  itself nor the base URL followed by it. And the test for an absolute URL is the prefix
  \<open>http\<close>: an absolute URL of another scheme gets the base URL in front.
\<close>

theorem getStrapiMedia_empty_counterexample:
  "getStrapiMedia None (Some '''') = None \<and>
   getStrapiMedia None (Some '''') \<noteq> Some '''' \<and>
   getStrapiMedia None (Some '''') \<noteq> Some (getStrapiURL None @ '''') \<and>
   getStrapiMedia None (Some ''ftp://files.example.com/a.png'') =
     Some ''http://localhost:1337ftp://files.example.com/a.png''"
  by (simp add: getStrapiMedia_def startsWith_def getStrapiURL_def STRAPI_URL_def)

text \<open>
  Claim C5, amended: for every non-empty URL string, media resolution returns the URL
  unchanged when it is absolute, which the code decides by the prefix \<open>http\<close>, and
  returns the configured base URL followed by the URL otherwise; for the empty string, as
  for \<open>null\<close>, it returns \<open>null\<close>.
\<close>

theorem getStrapiMedia_resolves:
  "(u \<noteq> [] \<longrightarrow>
      getStrapiMedia env (Some u) =
        Some (if startsWith u ''http'' then u else getStrapiURL env @ u)) \<and>
   getStrapiMedia env (Some []) = None \<and>
   getStrapiMedia env None = None"
  by (simp add: getStrapiMedia_def)

theorem getStrapiMedia_resolves_witness:
  "''/uploads/a.png'' \<noteq> [] \<and>
   getStrapiMedia None (Some ''/uploads/a.png'') = Some ''http://localhost:1337/uploads/a.png'' \<and>
   getStrapiMedia (Some ''http://192.168.1.100:1337'') (Some ''/uploads/a.png'') =
     Some ''http://192.168.1.100:1337/uploads/a.png'' \<and>
   getStrapiMedia None (Some ''https://cdn.example.com/a.png'') = Some ''https://cdn.example.com/a.png''"
  using getStrapiMedia_resolves [of "''/uploads/a.png''" None]
        getStrapiMedia_resolves [of "''/uploads/a.png''" "Some ''http://192.168.1.100:1337''"]
        getStrapiMedia_resolves [of "''https://cdn.example.com/a.png''" None]
  by (simp add: startsWith_def getStrapiURL_def STRAPI_URL_def)


section \<open>Pagination\<close>

lemma hasNextPage_snoc:
  "hasNextPage next_param (earlier @ [lastPage]) = (next_param lastPage \<noteq> None)"
  by (cases earlier) (simp_all add: hasNextPage_def)

text \<open>
  Claim C2, as stated: for every response with pagination metadata, \<open>hasNextPage\<close> is
  false exactly when \<open>page = pageCount\<close>. The comparison in the code is \<open>page < pageCount\<close>,
  so there is no next page either when the page is beyond the count. That is what the
  backend reports for an empty collection (page 1 of 0 pages): no next page, and yet
  \<open>page \<noteq> pageCount\<close>.
\<close>

theorem getNextPageParam_empty_collection_counterexample:
  "\<not> hasNextPage getNextPageParam
        [\<lparr>data = ([] :: nat list),
          meta = \<lparr>pagination = Some \<lparr>page = 1, pageSize = 10, pageCount = 0, total = 0\<rparr>\<rparr>\<rparr>] \<and>
   page \<lparr>page = 1, pageSize = 10, pageCount = 0, total = 0\<rparr> \<noteq>
     pageCount \<lparr>page = 1, pageSize = 10, pageCount = 0, total = 0\<rparr>"
  by (simp add: hasNextPage_def getNextPageParam_def)

text \<open>
  Claim C2, amended: for every response that carries pagination metadata, the next-page
  computation returns \<open>page + 1\<close> when \<open>page < pageCount\<close> and signals the end
  otherwise; so \<open>hasNextPage\<close> is false exactly when \<open>page \<ge> pageCount\<close>, which for a
  response with \<open>page \<le> pageCount\<close> is exactly when \<open>page = pageCount\<close>.
\<close>

theorem getNextPageParam_pagination:
  assumes "pagination (meta lastPage) = Some pg"
  shows "getNextPageParam lastPage = (if page pg < pageCount pg then Some (page pg + 1) else None) \<and>
         (\<not> hasNextPage getNextPageParam (earlier @ [lastPage]) \<longleftrightarrow> page pg \<ge> pageCount pg) \<and>
         (page pg \<le> pageCount pg \<longrightarrow>
            (\<not> hasNextPage getNextPageParam (earlier @ [lastPage]) \<longleftrightarrow> page pg = pageCount pg))"
  using assms by (auto simp add: hasNextPage_snoc getNextPageParam_def)

theorem getNextPageParam_pagination_witness:
  "getNextPageParam
     \<lparr>data = ([] :: nat list),
      meta = \<lparr>pagination = Some \<lparr>page = 2, pageSize = 10, pageCount = 3, total = 25\<rparr>\<rparr>\<rparr> = Some 3 \<and>
   \<not> hasNextPage getNextPageParam
     ([] @ [\<lparr>data = ([] :: nat list),
        meta = \<lparr>pagination = Some \<lparr>page = 3, pageSize = 10, pageCount = 3, total = 25\<rparr>\<rparr>\<rparr>])"
proof -
  let ?second = "\<lparr>data = ([] :: nat list),
      meta = \<lparr>pagination = Some \<lparr>page = 2, pageSize = 10, pageCount = 3, total = 25\<rparr>\<rparr>\<rparr>"
  let ?third = "\<lparr>data = ([] :: nat list),
      meta = \<lparr>pagination = Some \<lparr>page = 3, pageSize = 10, pageCount = 3, total = 25\<rparr>\<rparr>\<rparr>"
  have a: "pagination (meta ?second) = Some \<lparr>page = 2, pageSize = 10, pageCount = 3, total = 25\<rparr>"
    by simp
  have b: "pagination (meta ?third) = Some \<lparr>page = 3, pageSize = 10, pageCount = 3, total = 25\<rparr>"
    by simp
  show ?thesis
    using getNextPageParam_pagination [OF a, of "[]"] getNextPageParam_pagination [OF b, of "[]"]
    by simp
qed

text \<open>
  Claim C9: for every page response whose metadata has no pagination object, the
  next-page computation takes \<open>page = 1\<close> and \<open>pageCount = 1\<close> in its place: it gives
  the same as for a response that reports page 1 of 1, which is no next page, so
  pagination ends and nothing fails on the missing field.
\<close>

theorem getNextPageParam_without_pagination:
  assumes "pagination (meta lastPage) = None"
  shows "getNextPageParam lastPage = None \<and>
         getNextPageParam lastPage =
           getNextPageParam
             (lastPage\<lparr>meta := \<lparr>pagination =
                Some \<lparr>page = 1, pageSize = page_size, pageCount = 1, total = item_total\<rparr>\<rparr>\<rparr>) \<and>
         \<not> hasNextPage getNextPageParam (earlier @ [lastPage])"
  using assms by (simp add: hasNextPage_snoc getNextPageParam_def)

theorem getNextPageParam_without_pagination_witness:
  "getNextPageParam \<lparr>data = [''an article''], meta = \<lparr>pagination = None\<rparr>\<rparr> = None \<and>
   \<not> hasNextPage getNextPageParam ([] @ [\<lparr>data = [''an article''], meta = \<lparr>pagination = None\<rparr>\<rparr>])"
proof -
  have "pagination (meta \<lparr>data = [''an article''], meta = \<lparr>pagination = None\<rparr>\<rparr>) = None"
    by simp
  from getNextPageParam_without_pagination [OF this, of _ _ "[]"] show ?thesis
    by simp
qed


section \<open>The fetch client and the loaders\<close>

lemma fetchAPI_not_ok:
  "net (length (requests w)) (api_url env endpoint options) = Inr response \<Longrightarrow> \<not> ok response \<Longrightarrow>
   fetchAPI net env endpoint options w =
     (Inl (Error (api_error_message response)),
      w\<lparr>requests := requests w @ [api_url env endpoint options],
        console := console w @ [''API error response: '' @ body_text response]\<rparr>)"
  by (simp add: fetchAPI_def Let_def)

lemma fetchAPI_one_request:
  "requests (snd (fetchAPI net env endpoint options w)) =
     requests w @ [api_url env endpoint options]"
  by (simp add: fetchAPI_def Let_def split: sum.splits option.splits)

lemma getArticleBySlug_is_fetchAPI:
  "getArticleBySlug net env slug =
     fetchAPI net env ''articles'' (Some (no_options\<lparr>filters := Some (SlugEq slug)\<rparr>))"
  by (simp add: getArticleBySlug_def articles_find_def collection_find_def)

lemma getArticles_is_fetchAPI:
  "\<exists>options. getArticles net env params = fetchAPI net env ''articles'' (Some options)"
  unfolding getArticles_def articles_find_def collection_find_def Let_def
  by (rule exI) (rule refl)

lemma retryer_all_fail:
  assumes fails: "\<And>w. fst (f w) = Inl e"
    and one: "\<And>w. requests (snd (f w)) = requests w @ [r]"
  shows "fst (retryer n f w) = Inl e \<and>
         requests (snd (retryer n f w)) = requests w @ replicate (Suc n) r"
proof (induction n arbitrary: w)
  case 0
  show ?case by (simp add: fails one)
next
  case (Suc n)
  obtain w' where step: "f w = (Inl e, w')"
    using fails [of w] by (cases "f w") auto
  then have "requests w' = requests w @ [r]"
    using one [of w] by simp
  moreover have "retryer (Suc n) f w = retryer n f w'"
    by (simp add: step)
  ultimately show ?case
    using Suc.IH [of w'] by (simp add: replicate_append_same)
qed

lemma useArticleBySlug_persistent_failure:
  assumes "\<And>i. net i (api_url env ''articles'' (Some (no_options\<lparr>filters := Some (SlugEq slug)\<rparr>))) =
      Inr response"
    and "\<not> ok response" and "slug \<noteq> []"
  shows "fst (useQuery retry (useArticleBySlug net env slug) w) =
           Failure (Error (api_error_message response)) \<and>
         requests (snd (useQuery retry (useArticleBySlug net env slug) w)) =
           requests w @
             replicate 4 (api_url env ''articles'' (Some (no_options\<lparr>filters := Some (SlugEq slug)\<rparr>)))"
proof -
  let ?url = "api_url env ''articles'' (Some (no_options\<lparr>filters := Some (SlugEq slug)\<rparr>))"
  let ?f = "getArticleBySlug net env slug"
  have fails: "fst (?f w) = Inl (Error (api_error_message response))" for w
    using assms(1) [of "length (requests w)"] assms(2)
    by (simp add: getArticleBySlug_is_fetchAPI fetchAPI_not_ok)
  have one: "requests (snd (?f w)) = requests w @ [?url]" for w
    by (simp add: getArticleBySlug_is_fetchAPI fetchAPI_one_request)
  have r: "fst (retryer 3 ?f w) = Inl (Error (api_error_message response)) \<and>
        requests (snd (retryer 3 ?f w)) = requests w @ replicate (Suc 3) ?url"
    using fails one by (rule retryer_all_fail)
  obtain w' where "retryer 3 ?f w = (Inl (Error (api_error_message response)), w')"
    using r by (cases "retryer 3 ?f w") auto
  with r assms(3) show ?thesis
    by (simp add: useQuery_def useArticleBySlug_def retry_def)
qed

text \<open>
  Claim C3: for every slug, the single-item lookup returns an empty result, and not an
  error, when no article matches (the backend answers the equality filter with a success
  response whose \<open>data\<close> is the empty list, and that body is what the lookup returns);
  a transport failure and a non-success status come back as errors instead, the first as
  the rejection of \<open>fetch\<close> itself and the second as the error thrown by \<open>fetchAPI\<close>.
  The caller tells the cases apart: the lookup ends in an error exactly when the transport
  failed, the status is not a success, or the body is not JSON.
\<close>

theorem getArticleBySlug_not_found_is_not_an_error:
  "(net (length (requests w))
        (api_url env ''articles'' (Some (no_options\<lparr>filters := Some (SlugEq slug)\<rparr>))) = Inr response \<and>
      ok response \<and> body_json response = Some body \<and> data body = [] \<longrightarrow>
      fst (getArticleBySlug net env slug w) = Inr body) \<and>
   (net (length (requests w))
        (api_url env ''articles'' (Some (no_options\<lparr>filters := Some (SlugEq slug)\<rparr>))) = Inl e \<longrightarrow>
      fst (getArticleBySlug net env slug w) = Inl e) \<and>
   (net (length (requests w))
        (api_url env ''articles'' (Some (no_options\<lparr>filters := Some (SlugEq slug)\<rparr>))) = Inr response \<and>
      \<not> ok response \<longrightarrow>
      fst (getArticleBySlug net env slug w) = Inl (Error (api_error_message response))) \<and>
   (isl (fst (getArticleBySlug net env slug w)) \<longleftrightarrow>
      (case net (length (requests w))
              (api_url env ''articles'' (Some (no_options\<lparr>filters := Some (SlugEq slug)\<rparr>))) of
         Inl e \<Rightarrow> True
       | Inr r \<Rightarrow> \<not> ok r \<or> body_json r = None))"
  by (auto simp add: getArticleBySlug_is_fetchAPI fetchAPI_def Let_def split: sum.splits option.splits)

theorem getArticleBySlug_not_found_is_not_an_error_witness:
  "fst (getArticleBySlug (paged_backend 0) None ''no-such-article'' fresh_world) =
     Inr \<lparr>data = [], meta = \<lparr>pagination = Some \<lparr>page = 1, pageSize = 10, pageCount = 0, total = 0\<rparr>\<rparr>\<rparr> \<and>
   fst (getArticleBySlug offline None ''no-such-article'' fresh_world) =
     Inl (TypeError ''Network request failed'') \<and>
   fst (getArticleBySlug (failing_backend 500 ''Internal Server Error'') None ''no-such-article'' fresh_world) =
     Inl (Error ''API error: 500 Internal Server Error'')"
proof -
  let ?url = "api_url None ''articles'' (Some (no_options\<lparr>filters := Some (SlugEq ''no-such-article'')\<rparr>))"
  let ?body = "\<lparr>data = ([] :: nat list),
      meta = \<lparr>pagination = Some \<lparr>page = 1, pageSize = 10, pageCount = 0, total = 0\<rparr>\<rparr>\<rparr>"
  let ?found = "\<lparr>status = 200, statusText = ''OK'', body_text = ''{}'', body_json = Some ?body\<rparr>"
  let ?failed = "\<lparr>status = 500, statusText = ''Internal Server Error'', body_text = ''{}'',
      body_json = (None :: nat StrapiCollectionResponse option)\<rparr>"
  have a: "paged_backend 0 (length (requests fresh_world)) ?url = Inr ?found \<and> ok ?found \<and>
      body_json ?found = Some ?body \<and> data ?body = []"
    by (simp add: paged_backend_def requested_page_def api_url_def no_options_def ok_def)
  have b: "offline (length (requests fresh_world)) ?url = Inl (TypeError ''Network request failed'')"
    by (simp add: offline_def)
  have c: "failing_backend 500 ''Internal Server Error'' (length (requests fresh_world)) ?url =
      Inr ?failed \<and> \<not> ok ?failed"
    by (simp add: failing_backend_def ok_def)
  have m: "api_error_message ?failed = ''API error: 500 Internal Server Error''"
    by (simp add: api_error_message_def string_of_nat.simps digit_def)
  from a b c m
    getArticleBySlug_not_found_is_not_an_error
      [of "paged_backend 0" fresh_world None "''no-such-article''" ?found ?body]
    getArticleBySlug_not_found_is_not_an_error
      [of offline fresh_world None "''no-such-article''" _ _ "TypeError ''Network request failed''"]
    getArticleBySlug_not_found_is_not_an_error
      [of "failing_backend 500 ''Internal Server Error''" fresh_world None "''no-such-article''" ?failed]
  show ?thesis
    by simp
qed

text \<open>
  Claim C7: for every response whose status is not a success, \<open>fetchAPI\<close> raises an
  error whose message carries the status (\<open>API error: <status> <statusText>\<close>). The
  loaders and the query functions of the hooks are calls of \<open>fetchAPI\<close> and nothing
  more, so what it raises is what they raise, and each call sends exactly one request:
  there is no retry in them. (The block renderer and \<open>getNextPageParam\<close> are pure
  functions: they send nothing.) Retrying is done by the query client alone, with its
  count of 3: against a backend that keeps answering with the failing response, the hook
  reports that same error after 1 + 3 requests.
\<close>

theorem http_error_propagates_unchanged:
  assumes "\<not> ok response"
  shows
    "(net (length (requests w)) (api_url env endpoint options) = Inr response \<longrightarrow>
        fetchAPI net env endpoint options w =
          (Inl (Error (''API error: '' @ string_of_nat (status response) @ '' '' @ statusText response)),
           w\<lparr>requests := requests w @ [api_url env endpoint options],
             console := console w @ [''API error response: '' @ body_text response]\<rparr>)) \<and>
     getArticleBySlug net env slug =
       fetchAPI net env ''articles'' (Some (no_options\<lparr>filters := Some (SlugEq slug)\<rparr>)) \<and>
     (\<exists>q. getArticles net env params = fetchAPI net env ''articles'' (Some q)) \<and>
     (\<exists>q. inf_queryFn (useInfiniteArticles net env tag) pageParam =
            fetchAPI net env ''articles'' (Some q)) \<and>
     queryFn (useArticleBySlug net env slug) = getArticleBySlug net env slug \<and>
     length (requests (snd (fetchAPI net env endpoint options w))) = length (requests w) + 1 \<and>
     ((\<forall>i. net i (api_url env ''articles'' (Some (no_options\<lparr>filters := Some (SlugEq slug)\<rparr>))) =
             Inr response) \<and> slug \<noteq> [] \<longrightarrow>
        fst (useQuery retry (useArticleBySlug net env slug) w) =
          Failure (Error (''API error: '' @ string_of_nat (status response) @ '' '' @ statusText response)) \<and>
        requests (snd (useQuery retry (useArticleBySlug net env slug) w)) =
          requests w @
            replicate (1 + 3) (api_url env ''articles'' (Some (no_options\<lparr>filters := Some (SlugEq slug)\<rparr>)))) \<and>
     retry = 3"
proof -
  have fetch: "net (length (requests w)) (api_url env endpoint options) = Inr response \<longrightarrow>
        fetchAPI net env endpoint options w =
          (Inl (Error (''API error: '' @ string_of_nat (status response) @ '' '' @ statusText response)),
           w\<lparr>requests := requests w @ [api_url env endpoint options],
             console := console w @ [''API error response: '' @ body_text response]\<rparr>)"
    using assms by (simp add: fetchAPI_not_ok api_error_message_def)
  have pages: "\<exists>q. inf_queryFn (useInfiniteArticles net env tag) pageParam =
            fetchAPI net env ''articles'' (Some q)"
    by (simp add: useInfiniteArticles_def getArticles_is_fetchAPI)
  have hook: "(\<forall>i. net i (api_url env ''articles'' (Some (no_options\<lparr>filters := Some (SlugEq slug)\<rparr>))) =
             Inr response) \<and> slug \<noteq> [] \<longrightarrow>
        fst (useQuery retry (useArticleBySlug net env slug) w) =
          Failure (Error (''API error: '' @ string_of_nat (status response) @ '' '' @ statusText response)) \<and>
        requests (snd (useQuery retry (useArticleBySlug net env slug) w)) =
          requests w @
            replicate (1 + 3) (api_url env ''articles'' (Some (no_options\<lparr>filters := Some (SlugEq slug)\<rparr>)))"
    using assms useArticleBySlug_persistent_failure [of net env slug response w]
    by (simp add: api_error_message_def)
  have one: "length (requests (snd (fetchAPI net env endpoint options w))) = length (requests w) + 1"
    by (simp add: fetchAPI_one_request)
  from fetch pages hook one show ?thesis
    by (simp add: getArticleBySlug_is_fetchAPI getArticles_is_fetchAPI useArticleBySlug_def retry_def)
qed

theorem http_error_propagates_unchanged_witness:
  "\<not> ok \<lparr>status = 404, statusText = ''Not Found'', body_text = ''{}'',
           body_json = (None :: nat StrapiCollectionResponse option)\<rparr> \<and>
   fst (fetchAPI (failing_backend 404 ''Not Found'') None ''articles'' None fresh_world) =
     Inl (Error ''API error: 404 Not Found'') \<and>
   fst (useQuery retry (useArticleBySlug (failing_backend 404 ''Not Found'') None ''hello'') fresh_world) =
     Failure (Error ''API error: 404 Not Found'') \<and>
   length (requests (snd (useQuery retry
      (useArticleBySlug (failing_backend 404 ''Not Found'') None ''hello'') fresh_world))) = 4"
proof -
  let ?response = "\<lparr>status = 404, statusText = ''Not Found'', body_text = ''{}'',
           body_json = (None :: nat StrapiCollectionResponse option)\<rparr>"
  have bad: "\<not> ok ?response"
    by (simp add: ok_def)
  have always: "\<forall>i r. failing_backend 404 ''Not Found'' i r = Inr ?response"
    by (simp add: failing_backend_def)
  have digits: "string_of_nat 404 = ''404''"
    by (simp add: string_of_nat.simps digit_def)
  show ?thesis
    using http_error_propagates_unchanged [OF bad,
        of "failing_backend 404 ''Not Found''" fresh_world None "''articles''" None "''hello''"]
      bad always digits
    by (simp add: fresh_world_def)
qed


section \<open>The hooks under the query library\<close>

lemma useQuery_world:
  "snd (useQuery n options w) =
     (if enabled options then snd (retryer n (queryFn options) w) else w)"
  by (simp add: useQuery_def split: prod.splits sum.splits)

lemma retryer_requests_grow:
  assumes "\<And>w. requests (snd (f w)) = requests w @ [r]"
  shows "requests (snd (retryer n f w)) \<noteq> requests w"
proof -
  have "\<exists>k. requests (snd (retryer n f w)) = requests w @ replicate (Suc k) r"
  proof (induction n arbitrary: w)
    case 0
    have "requests (snd (retryer 0 f w)) = requests w @ replicate (Suc 0) r"
      by (simp add: assms)
    then show ?case by blast
  next
    case (Suc n)
    show ?case
    proof (cases "f w")
      case (Pair res w')
      then have w': "requests w' = requests w @ [r]"
        using assms [of w] by simp
      show ?thesis
      proof (cases res)
        case (Inl e)
        then have "retryer (Suc n) f w = retryer n f w'"
          by (simp add: Pair)
        moreover obtain k where "requests (snd (retryer n f w')) = requests w' @ replicate (Suc k) r"
          using Suc.IH by blast
        ultimately have "requests (snd (retryer (Suc n) f w)) = requests w @ replicate (Suc (Suc k)) r"
          by (simp add: w' replicate_append_same)
        then show ?thesis by blast
      next
        case (Inr v)
        then have "requests (snd (retryer (Suc n) f w)) = requests w @ replicate (Suc 0) r"
          by (simp add: Pair w')
        then show ?thesis by blast
      qed
    qed
  qed
  then show ?thesis by auto
qed

text \<open>
  Claim C10: for every falsy slug, which for a string is the empty string (and the screen
  turns an absent route parameter into it), \<open>useArticleBySlug\<close> issues no fetch: the
  query is built with \<open>enabled: !!slug\<close>, a disabled query is not run, and the world is
  left as it was. \<open>getArticleBySlug\<close> is called, and a request sent, exactly when the
  slug is a non-empty string.
\<close>

theorem useArticleBySlug_disabled_for_falsy_slug:
  "(enabled (useArticleBySlug net env slug) \<longleftrightarrow> slug \<noteq> []) \<and>
   useQuery n (useArticleBySlug net env []) w = (Idle, w) \<and>
   useQuery n (ArticleDetailScreen net env None) w = (Idle, w) \<and>
   useQuery n (ArticleDetailScreen net env (Some [])) w = (Idle, w) \<and>
   (requests (snd (useQuery n (useArticleBySlug net env slug) w)) \<noteq> requests w \<longleftrightarrow> slug \<noteq> [])"
proof -
  have "requests (snd (retryer n (getArticleBySlug net env slug) w)) \<noteq> requests w"
    by (rule retryer_requests_grow
          [where r = "api_url env ''articles'' (Some (no_options\<lparr>filters := Some (SlugEq slug)\<rparr>))"])
       (simp add: getArticleBySlug_is_fetchAPI fetchAPI_one_request)
  then have "slug \<noteq> [] \<Longrightarrow>
      requests (snd (useQuery n (useArticleBySlug net env slug) w)) \<noteq> requests w"
    by (simp add: useQuery_world useArticleBySlug_def)
  then show ?thesis
    by (auto simp add: useQuery_def useArticleBySlug_def ArticleDetailScreen_def)
qed

theorem useArticleBySlug_disabled_for_falsy_slug_witness:
  "useQuery retry (useArticleBySlug (paged_backend 1) None '''') fresh_world = (Idle, fresh_world) \<and>
   requests (snd (useQuery retry (useArticleBySlug (paged_backend 1) None ''hello'') fresh_world)) =
     [api_url None ''articles'' (Some (no_options\<lparr>filters := Some (SlugEq ''hello'')\<rparr>))] \<and>
   ''hello'' \<noteq> []"
proof -
  have "requests (snd (useQuery retry (useArticleBySlug (paged_backend 1) None ''hello'') fresh_world)) =
     [api_url None ''articles'' (Some (no_options\<lparr>filters := Some (SlugEq ''hello'')\<rparr>))]"
    by (simp add: useQuery_def useArticleBySlug_def retry_def numeral_3_eq_3
        getArticleBySlug_is_fetchAPI fetchAPI_def Let_def paged_backend_def ok_def fresh_world_def)
  then show ?thesis
    using useArticleBySlug_disabled_for_falsy_slug
      [of "paged_backend 1" None "''hello''" retry fresh_world]
    by simp
qed


section \<open>The infinite-scroll consumer\<close>














section \<open>Filter and cursor\<close>

lemma queryKey_inj:
  "inf_queryKey (useInfiniteArticles net env t1) = inf_queryKey (useInfiniteArticles net env t2) \<longleftrightarrow>
     t1 = t2"
  by (simp add: useInfiniteArticles_def)

lemma fetch_page_other_key:
  assumes "k \<noteq> inf_queryKey options"
  shows "fst (fetch_page n options cache w) k = cache k"
  using assms
  by (simp add: fetch_page_def split: option.splits prod.splits sum.splits)

lemma next_page_param_cong:
  "cache' (inf_queryKey options) = cache (inf_queryKey options) \<Longrightarrow>
   next_page_param options cache' = next_page_param options cache"
  by (simp add: next_page_param_def)

lemma browse_append:
  "browse net env (ts @ us) s = browse net env us (browse net env ts s)"
  by (induction ts arbitrary: s) simp_all

lemma browse_other_key:
  assumes "t \<notin> set history"
  shows "fst (browse net env history s) (inf_queryKey (useInfiniteArticles net env t)) =
         fst s (inf_queryKey (useInfiniteArticles net env t))"
  using assms
proof (induction history arbitrary: s)
  case Nil
  then show ?case by simp
next
  case (Cons u us)
  then have "u \<noteq> t" and "t \<notin> set us"
    by auto
  have "fst (browse net env (u # us) s) (inf_queryKey (useInfiniteArticles net env t)) =
      fst (fetch_page retry (useInfiniteArticles net env u) (fst s) (snd s))
        (inf_queryKey (useInfiniteArticles net env t))"
    using Cons.IH [OF \<open>t \<notin> set us\<close>] by simp
  also have "\<dots> = fst s (inf_queryKey (useInfiniteArticles net env t))"
    using \<open>u \<noteq> t\<close> by (intro fetch_page_other_key) (simp add: queryKey_inj)
  finally show ?case .
qed

lemma getArticles_request:
  "requests (snd (getArticles net env
       (Some \<lparr>param_page = Some p, param_pageSize = None, param_tag = tag\<rparr>) w)) =
     requests w @
       [api_url env ''articles''
          (Some (no_options
             \<lparr>sort := Some [''createdAt:desc''],
              pagination_opt := Some \<lparr>opt_page = Some p, opt_pageSize = Some PAGE_SIZE\<rparr>,
              filters := (case tag of
                            None \<Rightarrow> None
                          | Some t \<Rightarrow> if t = [] then None else Some (ContentTagsTitleContainsi t))\<rparr>))]"
  by (simp add: getArticles_def articles_find_def collection_find_def fetchAPI_one_request Let_def)

lemma retryer_requests:
  assumes "\<And>w. requests (snd (f w)) = requests w @ [r]"
  shows "\<exists>k. k \<le> n \<and> requests (snd (retryer n f w)) = requests w @ replicate (Suc k) r"
proof (induction n arbitrary: w)
  case 0
  have "requests (snd (retryer 0 f w)) = requests w @ replicate (Suc 0) r"
    by (simp add: assms)
  then show ?case by blast
next
  case (Suc n)
  show ?case
  proof (cases "f w")
    case (Pair res w')
    then have w': "requests w' = requests w @ [r]"
      using assms [of w] by simp
    show ?thesis
    proof (cases res)
      case (Inl e)
      then have "retryer (Suc n) f w = retryer n f w'"
        by (simp add: Pair)
      moreover obtain k where "k \<le> n"
        and "requests (snd (retryer n f w')) = requests w' @ replicate (Suc k) r"
        using Suc.IH by blast
      ultimately have "Suc k \<le> Suc n \<and>
          requests (snd (retryer (Suc n) f w)) = requests w @ replicate (Suc (Suc k)) r"
        by (simp add: w' replicate_append_same)
      then show ?thesis by blast
    next
      case (Inr v)
      then have "0 \<le> Suc n \<and>
          requests (snd (retryer (Suc n) f w)) = requests w @ replicate (Suc 0) r"
        by (simp add: Pair w')
      then show ?thesis by blast
    qed
  qed
qed

lemma fetch_page_requests:
  assumes "next_page_param (useInfiniteArticles net env tag) cache = Some p"
  shows "\<exists>k. k \<le> n \<and>
     requests (snd (fetch_page n (useInfiniteArticles net env tag) cache w)) =
       requests w @
         replicate (Suc k)
           (api_url env ''articles''
              (Some (no_options
                 \<lparr>sort := Some [''createdAt:desc''],
                  pagination_opt := Some \<lparr>opt_page = Some p, opt_pageSize = Some PAGE_SIZE\<rparr>,
                  filters := (case tag of
                                None \<Rightarrow> None
                              | Some t \<Rightarrow>
                                  if t = [] then None else Some (ContentTagsTitleContainsi t))\<rparr>)))"
proof -
  let ?f = "getArticles net env (Some \<lparr>param_page = Some p, param_pageSize = None, param_tag = tag\<rparr>)"
  have "snd (fetch_page n (useInfiniteArticles net env tag) cache w) = snd (retryer n ?f w)"
    using assms
    by (simp add: fetch_page_def useInfiniteArticles_def split: prod.splits sum.splits)
  moreover have "requests (snd (?f w)) =
      requests w @
        [api_url env ''articles''
           (Some (no_options
              \<lparr>sort := Some [''createdAt:desc''],
               pagination_opt := Some \<lparr>opt_page = Some p, opt_pageSize = Some PAGE_SIZE\<rparr>,
               filters := (case tag of
                             None \<Rightarrow> None
                           | Some t \<Rightarrow>
                               if t = [] then None else Some (ContentTagsTitleContainsi t))\<rparr>))]" for w
    by (rule getArticles_request)
  ultimately show ?thesis
    using retryer_requests [of ?f _ n w] by simp
qed

text \<open>
  Claim C6, as stated: for every pair of distinct filter values, changing the filter
  discards the cursor in progress and restarts fetching from page 1 under the new filter.
  The hook puts the tag into the query key, and the library keeps the pages of a sequence
  under its key. So a filter value that was selected before still has its pages when it is
  selected again: after \<open>expo\<close> (page 1 of 3) and then \<open>react\<close> (page 1), changing the
  filter back to \<open>expo\<close> continues with page 2 under \<open>expo\<close>, not with page 1.
\<close>

theorem revisited_filter_counterexample:
  "map requested_page
     (requests (snd (browse (paged_backend 3) None [Some ''expo'', Some ''react'', Some ''expo'']
        (Map.empty, fresh_world)))) = [1, 1, 2] \<and>
   map requested_filter
     (requests (snd (browse (paged_backend 3) None [Some ''expo'', Some ''react'', Some ''expo'']
        (Map.empty, fresh_world)))) =
     [Some (ContentTagsTitleContainsi ''expo''), Some (ContentTagsTitleContainsi ''react''),
      Some (ContentTagsTitleContainsi ''expo'')]"
  by (simp add: fetch_page_def next_page_param_def useInfiniteArticles_def getNextPageParam_def
      getArticles_def articles_find_def collection_find_def fetchAPI_def api_url_def Let_def
      paged_backend_def requested_page_def requested_filter_def ok_def no_options_def
      fresh_world_def PAGE_SIZE_def retry_def numeral_3_eq_3)

text \<open>
  Claim C6, amended: for every pair of distinct filter values, the two pagination
  sequences are kept apart under distinct query keys: fetching under one filter leaves the
  pages and the cursor of the other untouched, so a cursor position reached under one
  filter is never reused under another. Every request sent for a filter carries that
  filter together with that filter's own cursor, and nothing else is sent (the same request
  again, at most three times more, when it fails and the client retries it). Changing the
  filter to a value that has no pages yet starts fetching from page 1 under the new
  filter, whatever was fetched under other filters before; a filter value that is selected
  again continues from its own pages.
\<close>

theorem filter_change_starts_own_sequence:
  assumes "t1 \<noteq> t2"
  shows
    "inf_queryKey (useInfiniteArticles net env t1) \<noteq> inf_queryKey (useInfiniteArticles net env t2) \<and>
     fst (fetch_page retry (useInfiniteArticles net env t1) cache w)
         (inf_queryKey (useInfiniteArticles net env t2)) =
       cache (inf_queryKey (useInfiniteArticles net env t2)) \<and>
     next_page_param (useInfiniteArticles net env t2)
         (fst (fetch_page retry (useInfiniteArticles net env t1) cache w)) =
       next_page_param (useInfiniteArticles net env t2) cache \<and>
     (cache (inf_queryKey (useInfiniteArticles net env t2)) = None \<longrightarrow>
        next_page_param (useInfiniteArticles net env t2)
          (fst (fetch_page retry (useInfiniteArticles net env t1) cache w)) = Some 1) \<and>
     (next_page_param (useInfiniteArticles net env t2) cache = Some p \<longrightarrow>
        (\<exists>k. k \<le> retry \<and>
           requests (snd (fetch_page retry (useInfiniteArticles net env t2) cache w)) =
             requests w @
               replicate (Suc k)
                 (api_url env ''articles''
                    (Some (no_options
                       \<lparr>sort := Some [''createdAt:desc''],
                        pagination_opt := Some \<lparr>opt_page = Some p, opt_pageSize = Some PAGE_SIZE\<rparr>,
                        filters := (case t2 of
                                      None \<Rightarrow> None
                                    | Some t \<Rightarrow>
                                        if t = [] then None
                                        else Some (ContentTagsTitleContainsi t))\<rparr>))))) \<and>
     (next_page_param (useInfiniteArticles net env t2) cache = None \<longrightarrow>
        fetch_page retry (useInfiniteArticles net env t2) cache w = (cache, w)) \<and>
     (t2 \<notin> set history \<longrightarrow>
        (\<exists>k. k \<le> retry \<and>
           requests (snd (browse net env (history @ [t2]) (Map.empty, w))) =
             requests (snd (browse net env history (Map.empty, w))) @
               replicate (Suc k)
                 (api_url env ''articles''
                    (Some (no_options
                       \<lparr>sort := Some [''createdAt:desc''],
                        pagination_opt := Some \<lparr>opt_page = Some 1, opt_pageSize = Some PAGE_SIZE\<rparr>,
                        filters := (case t2 of
                                      None \<Rightarrow> None
                                    | Some t \<Rightarrow>
                                        if t = [] then None
                                        else Some (ContentTagsTitleContainsi t))\<rparr>)))))"
proof -
  let ?k2 = "inf_queryKey (useInfiniteArticles net env t2)"
  have keys: "inf_queryKey (useInfiniteArticles net env t1) \<noteq> ?k2"
    using assms by (simp add: queryKey_inj)
  then have untouched:
    "fst (fetch_page retry (useInfiniteArticles net env t1) cache w) ?k2 = cache ?k2"
    by (intro fetch_page_other_key) simp
  then have cursor: "next_page_param (useInfiniteArticles net env t2)
         (fst (fetch_page retry (useInfiniteArticles net env t1) cache w)) =
       next_page_param (useInfiniteArticles net env t2) cache"
    by (rule next_page_param_cong)
  have fresh: "cache ?k2 = None \<longrightarrow>
        next_page_param (useInfiniteArticles net env t2)
          (fst (fetch_page retry (useInfiniteArticles net env t1) cache w)) = Some 1"
    by (simp add: cursor) (simp add: next_page_param_def useInfiniteArticles_def)
  have coupled: "next_page_param (useInfiniteArticles net env t2) cache = Some p \<longrightarrow>
        (\<exists>k. k \<le> retry \<and>
           requests (snd (fetch_page retry (useInfiniteArticles net env t2) cache w)) =
             requests w @
               replicate (Suc k)
                 (api_url env ''articles''
                    (Some (no_options
                       \<lparr>sort := Some [''createdAt:desc''],
                        pagination_opt := Some \<lparr>opt_page = Some p, opt_pageSize = Some PAGE_SIZE\<rparr>,
                        filters := (case t2 of
                                      None \<Rightarrow> None
                                    | Some t \<Rightarrow>
                                        if t = [] then None
                                        else Some (ContentTagsTitleContainsi t))\<rparr>))))"
    using fetch_page_requests [of net env t2 cache p retry w] by blast
  have ended: "next_page_param (useInfiniteArticles net env t2) cache = None \<longrightarrow>
        fetch_page retry (useInfiniteArticles net env t2) cache w = (cache, w)"
    by (simp add: fetch_page_def)
  have new: "\<exists>k. k \<le> retry \<and>
           requests (snd (browse net env (history @ [t2]) (Map.empty, w))) =
             requests (snd (browse net env history (Map.empty, w))) @
               replicate (Suc k)
                 (api_url env ''articles''
                    (Some (no_options
                       \<lparr>sort := Some [''createdAt:desc''],
                        pagination_opt := Some \<lparr>opt_page = Some 1, opt_pageSize = Some PAGE_SIZE\<rparr>,
                        filters := (case t2 of
                                      None \<Rightarrow> None
                                    | Some t \<Rightarrow>
                                        if t = [] then None
                                        else Some (ContentTagsTitleContainsi t))\<rparr>)))"
    if "t2 \<notin> set history"
  proof -
    let ?s = "browse net env history (Map.empty, w)"
    have "fst ?s ?k2 = None"
      using browse_other_key [OF that, of net env "(Map.empty, w)"] by simp
    then have "next_page_param (useInfiniteArticles net env t2) (fst ?s) = Some 1"
      by (simp add: next_page_param_def useInfiniteArticles_def)
    from fetch_page_requests [OF this, of retry "snd ?s"] show ?thesis
      by (simp add: browse_append)
  qed
  from keys untouched cursor fresh coupled ended new show ?thesis
    by blast
qed

theorem filter_change_starts_own_sequence_witness:
  "Some ''react'' \<noteq> Some ''expo'' \<and>
   Some ''expo'' \<notin> set [Some ''react'', Some ''react'', None] \<and>
   map requested_page
     (requests (snd (browse (paged_backend 3) None [Some ''react'', Some ''react'', None, Some ''expo'']
        (Map.empty, fresh_world)))) = [1, 2, 1, 1] \<and>
   map requested_filter
     (requests (snd (browse (paged_backend 3) None [Some ''react'', Some ''react'', None, Some ''expo'']
        (Map.empty, fresh_world)))) =
     [Some (ContentTagsTitleContainsi ''react''), Some (ContentTagsTitleContainsi ''react''), None,
      Some (ContentTagsTitleContainsi ''expo'')] \<and>
   map requested_page
     (requests (snd (browse (failing_backend 500 ''Internal Server Error'') None [Some ''expo'']
        (Map.empty, fresh_world)))) = [1, 1, 1, 1]"
proof -
  have distinct: "Some ''react'' \<noteq> Some ''expo''"
    by simp
  have unused: "Some ''expo'' \<notin> set [Some ''react'', Some ''react'', None]"
    by simp
  have before: "requests (snd (browse (paged_backend 3) None [Some ''react'', Some ''react'', None]
        (Map.empty, fresh_world))) =
      [api_url None ''articles''
         (Some (no_options
            \<lparr>sort := Some [''createdAt:desc''],
             pagination_opt := Some \<lparr>opt_page = Some 1, opt_pageSize = Some PAGE_SIZE\<rparr>,
             filters := Some (ContentTagsTitleContainsi ''react'')\<rparr>)),
       api_url None ''articles''
         (Some (no_options
            \<lparr>sort := Some [''createdAt:desc''],
             pagination_opt := Some \<lparr>opt_page = Some 2, opt_pageSize = Some PAGE_SIZE\<rparr>,
             filters := Some (ContentTagsTitleContainsi ''react'')\<rparr>)),
       api_url None ''articles''
         (Some (no_options
            \<lparr>sort := Some [''createdAt:desc''],
             pagination_opt := Some \<lparr>opt_page = Some 1, opt_pageSize = Some PAGE_SIZE\<rparr>,
             filters := None\<rparr>))]"
    by (simp add: fetch_page_def next_page_param_def useInfiniteArticles_def getNextPageParam_def
      getArticles_def articles_find_def collection_find_def fetchAPI_def api_url_def Let_def
      paged_backend_def requested_page_def ok_def no_options_def fresh_world_def PAGE_SIZE_def
      retry_def numeral_3_eq_3)
  have after: "length (requests (snd (browse (paged_backend 3) None
        ([Some ''react'', Some ''react'', None] @ [Some ''expo'']) (Map.empty, fresh_world)))) = 4"
    by (simp add: fetch_page_def next_page_param_def useInfiniteArticles_def getNextPageParam_def
      getArticles_def articles_find_def collection_find_def fetchAPI_def api_url_def Let_def
      paged_backend_def requested_page_def ok_def no_options_def fresh_world_def PAGE_SIZE_def
      retry_def numeral_3_eq_3)
  have failing: "map requested_page
     (requests (snd (browse (failing_backend 500 ''Internal Server Error'') None [Some ''expo'']
        (Map.empty, fresh_world)))) = [1, 1, 1, 1]"
    by (simp add: fetch_page_def next_page_param_def useInfiniteArticles_def
      getArticles_def articles_find_def collection_find_def fetchAPI_def api_url_def Let_def
      failing_backend_def requested_page_def ok_def no_options_def fresh_world_def PAGE_SIZE_def
      retry_def numeral_3_eq_3)
  from filter_change_starts_own_sequence [OF distinct,
        of "paged_backend 3" None _ fresh_world _ "[Some ''react'', Some ''react'', None]"]
    unused
  obtain k where "requests (snd (browse (paged_backend 3) None
        ([Some ''react'', Some ''react'', None] @ [Some ''expo'']) (Map.empty, fresh_world))) =
      requests (snd (browse (paged_backend 3) None [Some ''react'', Some ''react'', None]
        (Map.empty, fresh_world))) @
        replicate (Suc k)
          (api_url None ''articles''
             (Some (no_options
                \<lparr>sort := Some [''createdAt:desc''],
                 pagination_opt := Some \<lparr>opt_page = Some 1, opt_pageSize = Some PAGE_SIZE\<rparr>,
                 filters := Some (ContentTagsTitleContainsi ''expo'')\<rparr>)))"
    by auto
  with before after have "requests (snd (browse (paged_backend 3) None
        ([Some ''react'', Some ''react'', None] @ [Some ''expo'']) (Map.empty, fresh_world))) =
      requests (snd (browse (paged_backend 3) None [Some ''react'', Some ''react'', None]
        (Map.empty, fresh_world))) @
        [api_url None ''articles''
             (Some (no_options
                \<lparr>sort := Some [''createdAt:desc''],
                 pagination_opt := Some \<lparr>opt_page = Some 1, opt_pageSize = Some PAGE_SIZE\<rparr>,
                 filters := Some (ContentTagsTitleContainsi ''expo'')\<rparr>))]"
    by (cases k) simp_all
  with before distinct unused failing show ?thesis
    by (simp add: requested_page_def requested_filter_def api_url_def no_options_def)
qed

end
